theory Spec2Isabelle
  imports Complex_Main "HOL-Library.Sublist" "HOL-Library.Log_Nat" "HOL-Library.AList"
begin

section \<open>Errors\<close>

text \<open>
  The Python exceptions that the modelled code can raise. A function that may raise
  returns \<open>error + 'a\<close>, with \<open>Inl\<close> for the exception.
\<close>

datatype error =
    AttributeError
  | KeyError
  | TypeError
  | ZeroDivisionError
  | OverflowError
  | InvalidOperation

section \<open>Filter set evaluation (integrations/cumplo.py)\<close>

text \<open>
  A filter is an object with a method \<open>apply(funding_request) -> bool\<close>. The method is
  Python code and may raise, so a filter is a function into \<open>error + bool\<close>.

  \<^verbatim>\<open>all(filter_.apply(x) for filter_ in filters)\<close> consumes the generator from the left,
  stops at the first falsy value, and lets an exception of \<open>apply\<close> propagate.
\<close>

fun all_apply :: "('r \<Rightarrow> error + bool) list \<Rightarrow> 'r \<Rightarrow> error + bool" where
  "all_apply [] x = Inr True"
| "all_apply (f # fs) x =
     (case f x of
        Inl e \<Rightarrow> Inl e
      | Inr b \<Rightarrow> if b then all_apply fs x else Inr False)"

text \<open>
  \<^verbatim>\<open>list(filter(lambda x: all(...), funding_requests))\<close> walks the requests from the left and
  builds a new list; the first exception ends the walk.
\<close>

fun filter_funding_requests :: "'r list \<Rightarrow> ('r \<Rightarrow> error + bool) list \<Rightarrow> error + 'r list" where
  "filter_funding_requests [] fs = Inr []"
| "filter_funding_requests (x # xs) fs =
     (case all_apply fs x of
        Inl e \<Rightarrow> Inl e
      | Inr b \<Rightarrow>
          (case filter_funding_requests xs fs of
             Inl e \<Rightarrow> Inl e
           | Inr ys \<Rightarrow> Inr (if b then x # ys else ys)))"

text \<open>
  The list objects of the caller. \<open>_filter_funding_requests\<close> receives a reference to the
  caller's list, reads it, and binds its local name to the fresh list made by \<open>list(...)\<close>,
  which it returns. The heap maps references to list contents; \<open>fresh\<close> is the next
  unused reference, and \<open>heap_ok\<close> says that nothing is stored at or beyond it. A
  reference that holds no list does not arise in Python; the model answers it with
  \<open>TypeError\<close>.
\<close>

record 'r list_heap =
  cells :: "nat \<Rightarrow> 'r list option"
  fresh :: nat

definition filter_funding_requests_ref ::
  "'r list_heap \<Rightarrow> nat \<Rightarrow> ('r \<Rightarrow> error + bool) list \<Rightarrow> error + (nat \<times> 'r list_heap)" where
  "filter_funding_requests_ref h p fs =
     (case cells h p of
        None \<Rightarrow> Inl TypeError
      | Some xs \<Rightarrow>
          (case filter_funding_requests xs fs of
             Inl e \<Rightarrow> Inl e
           | Inr ys \<Rightarrow>
               Inr (fresh h, h\<lparr>cells := (cells h)(fresh h \<mapsto> ys), fresh := Suc (fresh h)\<rparr>)))"

definition heap_ok :: "'r list_heap \<Rightarrow> bool" where
  "heap_ok h = (\<forall>p. fresh h \<le> p \<longrightarrow> cells h p = None)"

section \<open>Data model read by the filters (models/filter.py)\<close>

text \<open>
  Modelled from the spec: the classes \<open>FundingRequest\<close>, \<open>Borrower\<close>, \<open>Debtor\<close> and
  \<open>CreditType\<close>, which the filter module imports from a package that is not among the
  source files. Section 3 of the spec gives a funding request its financial attributes,
  a credit type of four values, a duration (value and unit), one borrower and a list of
  debtors, and gives borrower and debtor a ternary DICOM flag and a portfolio;
  \<open>CumploFundingRequest\<close>, whose \<open>export\<close> builds the \<open>FundingRequest\<close>, has the same
  fields \<open>borrower\<close> and \<open>debtors\<close>. The records hold the attributes that the filters
  read, under the names the filters use. \<open>Decimal\<close> values are rationals, Python
  integers are \<open>int\<close>, and a nullable attribute is an \<open>option\<close>.
\<close>

datatype credit_type = STATE_SUBSIDY | WORKING_CAPITAL | BULLET_LOAN | FACTORING

datatype duration_unit = DAY | MONTH

record request_duration =
  duration_value :: int
  duration_unit :: duration_unit

record portfolio =
  total_requests :: int
  total_amount :: int
  paid_in_time :: "rat option"

record borrower =
  borrower_dicom :: "bool option"
  borrower_portfolio :: portfolio
  average_days_delinquent :: "int option"

record debtor =
  debtor_dicom :: "bool option"
  debtor_portfolio :: portfolio

record funding_request =
  request_id :: int
  score :: rat
  irr :: rat
  credit_type :: credit_type
  maximum_investment :: int
  monthly_profit_rate :: rat
  duration :: request_duration
  borrower :: borrower
  debtors :: "debtor list"

text \<open>
  Modelled from the spec: the class \<open>FilterConfiguration\<close>, imported from the same
  package. Section 3 lists its thresholds, all nullable, and the two toggles that ignore
  the DICOM of borrower and debtor. The filters read the borrower's and the debtor's
  thresholds and toggles through \<open>configuration.borrower\<close> and \<open>configuration.debtor\<close>,
  and three of them test these two parts for falsiness before reading a threshold, so
  both parts can be absent.
\<close>

record borrower_configuration =
  ignore_borrower_dicom :: bool
  maximum_average_days_delinquent :: "int option"
  borrower_minimum_paid_in_time_percentage :: "rat option"

record debtor_configuration =
  ignore_debtor_dicom :: bool
  debtor_minimum_paid_in_time_percentage :: "rat option"

record filter_configuration =
  target_credit_types :: "credit_type list option"
  minimum_investment_amount :: "int option"
  minimum_score :: "rat option"
  minimum_monthly_profit_rate :: "rat option"
  minimum_irr :: "rat option"
  minimum_duration :: "int option"
  maximum_duration :: "int option"
  minimum_requested_credits :: "int option"
  minimum_requested_amount :: "int option"
  configuration_borrower :: "borrower_configuration option"
  configuration_debtor :: "debtor_configuration option"

text \<open>
  Python truthiness of a nullable number: \<open>None\<close> and zero are falsy. The filters below
  spell the test out as a case split; \<open>truthy\<close> states it for a whole configuration.
\<close>

fun truthy :: "'a::zero option \<Rightarrow> bool" where
  "truthy None = False"
| "truthy (Some v) = (v \<noteq> 0)"

text \<open>
  Modelled from the spec: the attribute access \<open>funding_request.debtor\<close>. The request of
  section 3, like \<open>CumploFundingRequest\<close>, has the attributes \<open>borrower\<close> and \<open>debtors\<close>
  and none named \<open>debtor\<close>, so reading it raises \<open>AttributeError\<close>.
\<close>

definition funding_request_debtor :: "funding_request \<Rightarrow> error + debtor" where
  "funding_request_debtor funding_request = Inl AttributeError"

section \<open>The fourteen filters (models/filter.py)\<close>

definition duration_in_days :: "funding_request \<Rightarrow> int" where
  "duration_in_days funding_request =
     (if duration_unit (duration funding_request) = DAY
      then duration_value (duration funding_request)
      else duration_value (duration funding_request) * 30)"

definition CreditTypeFilter_apply :: "filter_configuration \<Rightarrow> funding_request \<Rightarrow> error + bool" where
  "CreditTypeFilter_apply configuration funding_request =
     (case target_credit_types configuration of
        None \<Rightarrow> Inr True
      | Some types \<Rightarrow> Inr (credit_type funding_request \<in> set types))"

definition MinimumInvestmentFilter_apply :: "filter_configuration \<Rightarrow> funding_request \<Rightarrow> error + bool" where
  "MinimumInvestmentFilter_apply configuration funding_request =
     (case minimum_investment_amount configuration of
        None \<Rightarrow> Inr True
      | Some m \<Rightarrow> Inr (maximum_investment funding_request \<ge> m))"

definition MinimumScoreFilter_apply :: "filter_configuration \<Rightarrow> funding_request \<Rightarrow> error + bool" where
  "MinimumScoreFilter_apply configuration funding_request =
     (case minimum_score configuration of
        None \<Rightarrow> Inr True
      | Some m \<Rightarrow> Inr (score funding_request \<ge> m))"

definition MinimumMonthlyProfitFilter_apply :: "filter_configuration \<Rightarrow> funding_request \<Rightarrow> error + bool" where
  "MinimumMonthlyProfitFilter_apply configuration funding_request =
     (case minimum_monthly_profit_rate configuration of
        None \<Rightarrow> Inr True
      | Some m \<Rightarrow> Inr (monthly_profit_rate funding_request \<ge> m))"

definition MinimumIRRFilter_apply :: "filter_configuration \<Rightarrow> funding_request \<Rightarrow> error + bool" where
  "MinimumIRRFilter_apply configuration funding_request =
     (case minimum_irr configuration of
        None \<Rightarrow> Inr True
      | Some m \<Rightarrow> Inr (irr funding_request \<ge> m))"

definition MinimumDurationFilter_apply :: "filter_configuration \<Rightarrow> funding_request \<Rightarrow> error + bool" where
  "MinimumDurationFilter_apply configuration funding_request =
     (case minimum_duration configuration of
        None \<Rightarrow> Inr True
      | Some m \<Rightarrow> Inr (duration_in_days funding_request \<ge> m))"

definition MaximumDurationFilter_apply :: "filter_configuration \<Rightarrow> funding_request \<Rightarrow> error + bool" where
  "MaximumDurationFilter_apply configuration funding_request =
     (case maximum_duration configuration of
        None \<Rightarrow> Inr True
      | Some m \<Rightarrow> Inr (duration_in_days funding_request \<le> m))"

text \<open>
  The two DICOM filters read the toggle through \<open>configuration.debtor\<close> and
  \<open>configuration.borrower\<close> without a test for absence: on an absent part the attribute
  access raises. A DICOM flag is truthy only when it is \<open>True\<close>.
\<close>

definition DebtorDicomFilter_apply :: "filter_configuration \<Rightarrow> funding_request \<Rightarrow> error + bool" where
  "DebtorDicomFilter_apply configuration funding_request =
     (case configuration_debtor configuration of
        None \<Rightarrow> Inl AttributeError
      | Some d \<Rightarrow>
          if ignore_debtor_dicom d then Inr True
          else Inr (\<not> list_ex (\<lambda>debtor. debtor_dicom debtor = Some True) (debtors funding_request)))"

definition BorrowerDicomFilter_apply :: "filter_configuration \<Rightarrow> funding_request \<Rightarrow> error + bool" where
  "BorrowerDicomFilter_apply configuration funding_request =
     (case configuration_borrower configuration of
        None \<Rightarrow> Inl AttributeError
      | Some b \<Rightarrow>
          if ignore_borrower_dicom b then Inr True
          else Inr (\<not> (borrower_dicom (borrower funding_request) = Some True)))"

text \<open>
  The next four filters test their threshold by truthiness (\<open>if not threshold\<close>), so a
  threshold of zero is unset as well; the last two bind the request's value with \<open>:=\<close> and
  compare only when it is truthy.
\<close>

definition MinimumCreditsRequestedFilter_apply :: "filter_configuration \<Rightarrow> funding_request \<Rightarrow> error + bool" where
  "MinimumCreditsRequestedFilter_apply configuration funding_request =
     (case minimum_requested_credits configuration of
        None \<Rightarrow> Inr True
      | Some m \<Rightarrow>
          if m = 0 then Inr True
          else Inr (total_requests (borrower_portfolio (borrower funding_request)) \<ge> m))"

definition MinimumAmountRequestedFilter_apply :: "filter_configuration \<Rightarrow> funding_request \<Rightarrow> error + bool" where
  "MinimumAmountRequestedFilter_apply configuration funding_request =
     (case minimum_requested_amount configuration of
        None \<Rightarrow> Inr True
      | Some m \<Rightarrow>
          if m = 0 then Inr True
          else Inr (total_amount (borrower_portfolio (borrower funding_request)) \<ge> m))"

definition BorrowerMaximumAverageDaysDelinquentFilter_apply ::
  "filter_configuration \<Rightarrow> funding_request \<Rightarrow> error + bool" where
  "BorrowerMaximumAverageDaysDelinquentFilter_apply configuration funding_request =
     (case configuration_borrower configuration of
        None \<Rightarrow> Inr True
      | Some b \<Rightarrow>
          (case maximum_average_days_delinquent b of
             None \<Rightarrow> Inr True
           | Some m \<Rightarrow>
               if m = 0 then Inr True
               else
                 (case average_days_delinquent (borrower funding_request) of
                    None \<Rightarrow> Inr True
                  | Some a \<Rightarrow> if a = 0 then Inr True else Inr (a \<le> m))))"

definition BorrowerMinimumPaidInTimeFilter_apply ::
  "filter_configuration \<Rightarrow> funding_request \<Rightarrow> error + bool" where
  "BorrowerMinimumPaidInTimeFilter_apply configuration funding_request =
     (case configuration_borrower configuration of
        None \<Rightarrow> Inr True
      | Some b \<Rightarrow>
          (case borrower_minimum_paid_in_time_percentage b of
             None \<Rightarrow> Inr True
           | Some m \<Rightarrow>
               if m = 0 then Inr True
               else if total_requests (borrower_portfolio (borrower funding_request)) = 0
               then Inr True
               else
                 (case paid_in_time (borrower_portfolio (borrower funding_request)) of
                    None \<Rightarrow> Inr True
                  | Some p \<Rightarrow> if p = 0 then Inr True else Inr (p \<ge> m))))"

text \<open>
  The last expression of \<open>DebtorMinimumPaidInTimeFilter.apply\<close>: \<open>any\<close> over the debtors
  whose \<open>paid_in_time\<close> is not \<open>None\<close>.
\<close>

definition any_debtor_paid_in_time :: "rat \<Rightarrow> debtor list \<Rightarrow> bool" where
  "any_debtor_paid_in_time minimum ds =
     list_ex (\<lambda>debtor. the (paid_in_time (debtor_portfolio debtor)) \<ge> minimum)
       (filter (\<lambda>debtor. paid_in_time (debtor_portfolio debtor) \<noteq> None) ds)"

definition DebtorMinimumPaidInTimeFilter_apply ::
  "filter_configuration \<Rightarrow> funding_request \<Rightarrow> error + bool" where
  "DebtorMinimumPaidInTimeFilter_apply configuration funding_request =
     (case configuration_debtor configuration of
        None \<Rightarrow> Inr True
      | Some d \<Rightarrow>
          (case debtor_minimum_paid_in_time_percentage d of
             None \<Rightarrow> Inr True
           | Some m \<Rightarrow>
               if m = 0 then Inr True
               else
                 (case funding_request_debtor funding_request of
                    Inl e \<Rightarrow> Inl e
                  | Inr debtor \<Rightarrow>
                      if total_requests (debtor_portfolio debtor) = 0 then Inr True
                      else Inr (any_debtor_paid_in_time m (debtors funding_request)))))"

text \<open>
  A filter object is a subclass of \<open>Filter\<close> holding a configuration; \<open>apply\<close> dispatches
  on the class.
\<close>

datatype filter_class =
    CreditTypeFilter
  | MinimumInvestmentFilter
  | MinimumScoreFilter
  | MinimumMonthlyProfitFilter
  | MinimumIRRFilter
  | MinimumDurationFilter
  | MaximumDurationFilter
  | DebtorDicomFilter
  | BorrowerDicomFilter
  | MinimumCreditsRequestedFilter
  | MinimumAmountRequestedFilter
  | BorrowerMaximumAverageDaysDelinquentFilter
  | BorrowerMinimumPaidInTimeFilter
  | DebtorMinimumPaidInTimeFilter

fun apply_filter :: "filter_configuration \<Rightarrow> filter_class \<Rightarrow> funding_request \<Rightarrow> error + bool" where
  "apply_filter c CreditTypeFilter = CreditTypeFilter_apply c"
| "apply_filter c MinimumInvestmentFilter = MinimumInvestmentFilter_apply c"
| "apply_filter c MinimumScoreFilter = MinimumScoreFilter_apply c"
| "apply_filter c MinimumMonthlyProfitFilter = MinimumMonthlyProfitFilter_apply c"
| "apply_filter c MinimumIRRFilter = MinimumIRRFilter_apply c"
| "apply_filter c MinimumDurationFilter = MinimumDurationFilter_apply c"
| "apply_filter c MaximumDurationFilter = MaximumDurationFilter_apply c"
| "apply_filter c DebtorDicomFilter = DebtorDicomFilter_apply c"
| "apply_filter c BorrowerDicomFilter = BorrowerDicomFilter_apply c"
| "apply_filter c MinimumCreditsRequestedFilter = MinimumCreditsRequestedFilter_apply c"
| "apply_filter c MinimumAmountRequestedFilter = MinimumAmountRequestedFilter_apply c"
| "apply_filter c BorrowerMaximumAverageDaysDelinquentFilter =
     BorrowerMaximumAverageDaysDelinquentFilter_apply c"
| "apply_filter c BorrowerMinimumPaidInTimeFilter = BorrowerMinimumPaidInTimeFilter_apply c"
| "apply_filter c DebtorMinimumPaidInTimeFilter = DebtorMinimumPaidInTimeFilter_apply c"

definition all_filters :: "filter_class list" where
  "all_filters =
     [CreditTypeFilter, MinimumInvestmentFilter, MinimumScoreFilter, MinimumMonthlyProfitFilter,
      MinimumIRRFilter, MinimumDurationFilter, MaximumDurationFilter, DebtorDicomFilter,
      BorrowerDicomFilter, MinimumCreditsRequestedFilter, MinimumAmountRequestedFilter,
      BorrowerMaximumAverageDaysDelinquentFilter, BorrowerMinimumPaidInTimeFilter,
      DebtorMinimumPaidInTimeFilter]"

text \<open>
  A configuration with every threshold unset: \<open>None\<close> for the thresholds that the filters
  compare with \<open>is None\<close>, \<open>None\<close> or zero for those they test by truthiness.
\<close>

definition thresholds_unset :: "filter_configuration \<Rightarrow> bool" where
  "thresholds_unset c =
     (target_credit_types c = None \<and> minimum_investment_amount c = None
      \<and> minimum_score c = None \<and> minimum_monthly_profit_rate c = None
      \<and> minimum_irr c = None \<and> minimum_duration c = None \<and> maximum_duration c = None
      \<and> \<not> truthy (minimum_requested_credits c) \<and> \<not> truthy (minimum_requested_amount c)
      \<and> (case configuration_borrower c of
            None \<Rightarrow> True
          | Some b \<Rightarrow> \<not> truthy (maximum_average_days_delinquent b)
                      \<and> \<not> truthy (borrower_minimum_paid_in_time_percentage b))
      \<and> (case configuration_debtor c of
            None \<Rightarrow> True
          | Some d \<Rightarrow> \<not> truthy (debtor_minimum_paid_in_time_percentage d)))"

definition dicom_ignored :: "filter_configuration \<Rightarrow> bool" where
  "dicom_ignored c =
     ((case configuration_borrower c of None \<Rightarrow> False | Some b \<Rightarrow> ignore_borrower_dicom b)
      \<and> (case configuration_debtor c of None \<Rightarrow> False | Some d \<Rightarrow> ignore_debtor_dicom d))"

section \<open>Example inputs\<close>

definition unset_configuration :: filter_configuration where
  "unset_configuration =
     \<lparr>target_credit_types = None, minimum_investment_amount = None, minimum_score = None,
      minimum_monthly_profit_rate = None, minimum_irr = None, minimum_duration = None,
      maximum_duration = None, minimum_requested_credits = None,
      minimum_requested_amount = None,
      configuration_borrower =
        Some \<lparr>ignore_borrower_dicom = False, maximum_average_days_delinquent = None,
              borrower_minimum_paid_in_time_percentage = None\<rparr>,
      configuration_debtor =
        Some \<lparr>ignore_debtor_dicom = False, debtor_minimum_paid_in_time_percentage = None\<rparr>\<rparr>"

definition ignoring_configuration :: filter_configuration where
  "ignoring_configuration =
     unset_configuration
       \<lparr>configuration_borrower :=
          Some \<lparr>ignore_borrower_dicom = True, maximum_average_days_delinquent = Some 0,
                borrower_minimum_paid_in_time_percentage = None\<rparr>,
        configuration_debtor :=
          Some \<lparr>ignore_debtor_dicom = True, debtor_minimum_paid_in_time_percentage = None\<rparr>\<rparr>"

definition paid_in_time_configuration :: filter_configuration where
  "paid_in_time_configuration =
     unset_configuration
       \<lparr>configuration_borrower :=
          Some \<lparr>ignore_borrower_dicom = True, maximum_average_days_delinquent = Some 10,
                borrower_minimum_paid_in_time_percentage = Some 50\<rparr>,
        configuration_debtor :=
          Some \<lparr>ignore_debtor_dicom = True, debtor_minimum_paid_in_time_percentage = Some 50\<rparr>\<rparr>"

definition example_request :: "bool option \<Rightarrow> rat option \<Rightarrow> rat option \<Rightarrow> funding_request" where
  "example_request dicom borrower_paid debtor_paid =
     \<lparr>request_id = 1, score = 4, irr = 12, credit_type = FACTORING, maximum_investment = 500000,
      monthly_profit_rate = 1, duration = \<lparr>duration_value = 45, duration_unit = DAY\<rparr>,
      borrower =
        \<lparr>borrower_dicom = dicom,
         borrower_portfolio = \<lparr>total_requests = 7, total_amount = 9000000, paid_in_time = borrower_paid\<rparr>,
         average_days_delinquent = None\<rparr>,
      debtors =
        [\<lparr>debtor_dicom = None,
          debtor_portfolio = \<lparr>total_requests = 3, total_amount = 4000000, paid_in_time = debtor_paid\<rparr>\<rparr>]\<rparr>"

definition zero_irr_configuration :: filter_configuration where
  "zero_irr_configuration = ignoring_configuration\<lparr>minimum_irr := Some 0\<rparr>"

definition negative_irr_request :: funding_request where
  "negative_irr_request = (example_request None None None)\<lparr>irr := - 1 / 2\<rparr>"

definition example_heap :: "int list_heap" where
  "example_heap = \<lparr>cells = [0 \<mapsto> [1, 2, 3]], fresh = 1\<rparr>"

definition example_filters :: "(int \<Rightarrow> error + bool) list" where
  "example_filters = [\<lambda>x. Inr (1 < x), \<lambda>x. Inr (x < 3)]"

section \<open>DICOM inference (models/cumplo/funding_request.py)\<close>

text \<open>
  \<open>DicomMarker\<close> is a table of constants outside this repository: four single phrases
  and three collections of phrases. It is a parameter of the model.
\<close>

record dicom_marker =
  BOTH_TRUE :: string
  BOTH_FALSE :: string
  DEBTOR_TRUE :: string
  BORROWER_TRUE :: "string list"
  BORROWER_FALSE :: string
  SINGLE_FALSE :: "string list"
  SINGLE_TRUE :: "string list"

text \<open>Python's \<open>marker in description\<close> on strings: \<open>marker\<close> occurs as a contiguous part.\<close>

fun str_in :: "string \<Rightarrow> string \<Rightarrow> bool" where
  "str_in marker [] = (marker = [])"
| "str_in marker (c # cs) = (prefix marker (c # cs) \<or> str_in marker cs)"

definition any_in :: "string list \<Rightarrow> string \<Rightarrow> bool" where
  "any_in markers description = list_ex (\<lambda>marker. str_in marker description) markers"

text \<open>
  The body of \<open>_identify_dicom_status\<close> after the description has been read and cleaned.
  The two locals start as \<open>None\<close> and are assigned in the order of the source: three
  independent \<open>if\<close> statements, then one \<open>if\<close>/\<open>elif\<close>.
\<close>

definition dicom_status_of_description :: "dicom_marker \<Rightarrow> string \<Rightarrow> bool option \<times> bool option" where
  "dicom_status_of_description M description =
     (if str_in (BOTH_TRUE M) description then (Some True, Some True)
      else if str_in (BOTH_FALSE M) description then (Some False, Some False)
      else
        let debtor_dicom0 = None;
            borrower_dicom0 = None;
            debtor_dicom1 =
              (if str_in (DEBTOR_TRUE M) description then Some True else debtor_dicom0);
            borrower_dicom1 =
              (if any_in (BORROWER_TRUE M) description then Some True else borrower_dicom0);
            borrower_dicom2 =
              (if str_in (BORROWER_FALSE M) description then Some False else borrower_dicom1);
            borrower_dicom3 =
              (if borrower_dicom2 = None \<and> any_in (SINGLE_FALSE M) description then Some False
               else if borrower_dicom2 = None \<and> any_in (SINGLE_TRUE M) description then Some True
               else borrower_dicom2)
        in (debtor_dicom1, borrower_dicom3))"

definition example_markers :: dicom_marker where
  "example_markers =
     \<lparr>BOTH_TRUE = ''ambos con dicom'', BOTH_FALSE = ''ambos sin dicom'',
      DEBTOR_TRUE = ''pagador con dicom'', BORROWER_TRUE = [''solicitante con dicom''],
      BORROWER_FALSE = ''solicitante sin dicom'', SINGLE_FALSE = [''no registra dicom''],
      SINGLE_TRUE = [''registra dicom'']\<rparr>"

section \<open>Credit type translation (models/cumplo/funding_request.py)\<close>

text \<open>
  \<open>CumploCreditType\<close> is a \<open>StrEnum\<close>: its members are the strings below, and a dictionary
  keyed by them is looked up with the raw string. A missing key raises \<open>KeyError\<close>.
\<close>

definition CREDIT_TYPE_TRANSLATIONS :: "(string \<times> credit_type) list" where
  "CREDIT_TYPE_TRANSLATIONS =
     [(''irrigation'', STATE_SUBSIDY),
      (''simple'', WORKING_CAPITAL),
      (''balloon'', BULLET_LOAN),
      (''bullet'', BULLET_LOAN),
      (''invoice'', FACTORING)]"

definition credit_type_validator :: "string \<Rightarrow> error + credit_type" where
  "credit_type_validator v =
     (case map_of CREDIT_TYPE_TRANSLATIONS v of
        None \<Rightarrow> Inl KeyError
      | Some c \<Rightarrow> Inr c)"

section \<open>Union over a user's configurations (routers)\<close>

text \<open>
  Both routers build a Python set and \<open>update\<close> it, for each value of the user's
  dictionary of configurations in turn, with the list that the per-configuration filter
  function returns for the whole payload. That function
  (\<open>cumplo.filter_funding_requests\<close>, \<open>funding_requests.filter_\<close>) lives outside the
  files at hand and is the parameter \<open>filter_of\<close>; it may raise. The set of requests is an
  \<open>'r set\<close>: two requests are the same element when they are equal.
\<close>

fun update_promising ::
  "('r list \<Rightarrow> 'c \<Rightarrow> error + 'r list) \<Rightarrow> 'r list \<Rightarrow> 'c list \<Rightarrow> 'r set \<Rightarrow> error + 'r set" where
  "update_promising filter_of payload [] promising = Inr promising"
| "update_promising filter_of payload (configuration # configurations) promising =
     (case filter_of payload configuration of
        Inl e \<Rightarrow> Inl e
      | Inr accepted \<Rightarrow>
          update_promising filter_of payload configurations (promising \<union> set accepted))"

text \<open>
  \<open>filter_funding_requests\<close> of routers/funding_requests.py (and, with the same loop,
  \<open>get_promising_funding_requests\<close>): the set starts empty.
\<close>

definition router_filter_funding_requests ::
  "('r list \<Rightarrow> 'c \<Rightarrow> error + 'r list) \<Rightarrow> 'r list \<Rightarrow> 'c list \<Rightarrow> error + 'r set" where
  "router_filter_funding_requests filter_of payload configurations =
     update_promising filter_of payload configurations {}"

text \<open>
  \<open>_filter_funding_requests\<close> of cumplo_spotter/routers/funding_requests/public.py:
  \<^verbatim>\<open>set() if user.filters else set(payload)\<close>, then the same loop.
\<close>

definition public_filter_funding_requests ::
  "('r list \<Rightarrow> 'c \<Rightarrow> error + 'r list) \<Rightarrow> 'r list \<Rightarrow> 'c list \<Rightarrow> error + 'r set" where
  "public_filter_funding_requests filter_of payload filters =
     update_promising filter_of payload filters (if filters \<noteq> [] then {} else set payload)"

definition example_accepts :: "nat list \<Rightarrow> string \<Rightarrow> error + nat list" where
  "example_accepts payload configuration =
     Inr (filter (\<lambda>x. if configuration = ''A'' then x = 1 \<or> x = 2 else x = 2 \<or> x = 3) payload)"

section \<open>Raw upstream data and the pre-validation hook (models/cumplo/funding_request.py)\<close>

text \<open>
  The hook receives the raw payload: nested dictionaries, lists and scalars. A dictionary
  is an association list in insertion order. Subscripting anything but a dictionary with
  a string raises \<open>TypeError\<close>; a missing key raises \<open>KeyError\<close>. Item assignment
  replaces the value of a present key in place and appends an absent one.
\<close>

datatype raw =
    RNone
  | RBool bool
  | RInt int
  | RStr string
  | RList "raw list"
  | RDict "(string \<times> raw) list"

definition getitem :: "raw \<Rightarrow> string \<Rightarrow> error + raw" where
  "getitem d k =
     (case d of
        RDict kvs \<Rightarrow> (case map_of kvs k of None \<Rightarrow> Inl KeyError | Some v \<Rightarrow> Inr v)
      | _ \<Rightarrow> Inl TypeError)"

definition setitem :: "raw \<Rightarrow> string \<Rightarrow> raw \<Rightarrow> error + raw" where
  "setitem d k v =
     (case d of
        RDict kvs \<Rightarrow> Inr (RDict (AList.update k v kvs))
      | _ \<Rightarrow> Inl TypeError)"

fun raw_of_flag :: "bool option \<Rightarrow> raw" where
  "raw_of_flag None = RNone"
| "raw_of_flag (Some b) = RBool b"

text \<open>
  \<open>_identify_dicom_status\<close>: reads \<^verbatim>\<open>data["solicitante"]["descripcion"]\<close>, cleans it and
  runs the marker tests. \<open>clean_text\<close> is imported from outside this repository and is a
  parameter; it is applied to a string (anything else is taken to raise \<open>TypeError\<close>).
\<close>

definition identify_dicom_status ::
  "dicom_marker \<Rightarrow> (string \<Rightarrow> string) \<Rightarrow> raw \<Rightarrow> error + (bool option \<times> bool option)" where
  "identify_dicom_status M clean_text data =
     (case getitem data ''solicitante'' of
        Inl e \<Rightarrow> Inl e
      | Inr solicitante \<Rightarrow>
          (case getitem solicitante ''descripcion'' of
             Inl e \<Rightarrow> Inl e
           | Inr (RStr s) \<Rightarrow> Inr (dicom_status_of_description M (clean_text s))
           | Inr _ \<Rightarrow> Inl TypeError))"

text \<open>\<^verbatim>\<open>for debtor in ...: debtor["dicom"] = debtor_dicom\<close> over a list of debtors.\<close>

fun set_debtors_dicom :: "raw \<Rightarrow> raw list \<Rightarrow> error + raw list" where
  "set_debtors_dicom v [] = Inr []"
| "set_debtors_dicom v (debtor # rest) =
     (case setitem debtor ''dicom'' v of
        Inl e \<Rightarrow> Inl e
      | Inr debtor' \<Rightarrow>
          (case set_debtors_dicom v rest of
             Inl e \<Rightarrow> Inl e
           | Inr rest' \<Rightarrow> Inr (debtor' # rest')))"

text \<open>
  \<open>_set_dicom_status\<close> mutates \<open>data\<close> in place; the model returns the mutated payload.
  Iterating an empty dictionary or an empty string runs the loop body no time; iterating a
  non-empty one yields strings, on which the item assignment raises; \<open>None\<close>, a Boolean
  and an integer are not iterable.
\<close>

definition set_dicom_status ::
  "dicom_marker \<Rightarrow> (string \<Rightarrow> string) \<Rightarrow> raw \<Rightarrow> error + raw" where
  "set_dicom_status M clean_text data =
     (case identify_dicom_status M clean_text data of
        Inl e \<Rightarrow> Inl e
      | Inr (debtor_flag, borrower_flag) \<Rightarrow>
          (case getitem data ''solicitante'' of
             Inl e \<Rightarrow> Inl e
           | Inr solicitante \<Rightarrow>
               (case setitem solicitante ''dicom'' (raw_of_flag borrower_flag) of
                  Inl e \<Rightarrow> Inl e
                | Inr solicitante' \<Rightarrow>
                    (case setitem data ''solicitante'' solicitante' of
                       Inl e \<Rightarrow> Inl e
                     | Inr data1 \<Rightarrow>
                         (case getitem data1 ''pagadores'' of
                            Inl e \<Rightarrow> Inl e
                          | Inr (RList ds) \<Rightarrow>
                              (case set_debtors_dicom (raw_of_flag debtor_flag) ds of
                                 Inl e \<Rightarrow> Inl e
                               | Inr ds' \<Rightarrow> setitem data1 ''pagadores'' (RList ds'))
                          | Inr (RDict []) \<Rightarrow> Inr data1
                          | Inr (RStr []) \<Rightarrow> Inr data1
                          | Inr _ \<Rightarrow> Inl TypeError)))))"

text \<open>\<open>_preprocess_data\<close>, the validator that runs before the typed validation.\<close>

definition preprocess_data ::
  "dicom_marker \<Rightarrow> (string \<Rightarrow> string) \<Rightarrow> raw \<Rightarrow> error + raw" where
  "preprocess_data M clean_text data =
     (case set_dicom_status M clean_text data of
        Inl e \<Rightarrow> Inl e
      | Inr data' \<Rightarrow> Inr data')"

section \<open>Enrichment of constructed requests (integrations/cumplo.py)\<close>

text \<open>
  \<open>gather_full_funding_requests\<close> works on constructed \<open>FundingRequest\<close> objects of the
  scraper's own model. The objects live in a store indexed by reference; the list holds
  references. Of a request the function reads \<open>id\<close> and writes \<open>borrower.history\<close>; the
  other attributes of the request and of its borrower are the fields \<open>request_fields\<close>
  and \<open>borrower_fields\<close>.
\<close>

record ('h, 'b) scraped_borrower =
  history :: "'h option"
  borrower_fields :: 'b

record ('h, 'b, 'f) scraped_funding_request =
  scraped_id :: int
  scraped_borrower :: "('h, 'b) scraped_borrower"
  request_fields :: 'f

text \<open>
  \<open>get_credit_history\<close> queries the remote source and is a parameter. The awaited
  \<open>gather\<close> gives the results in the order of the tasks, or raises.
\<close>

fun gather_results :: "(int \<Rightarrow> error + 'h) \<Rightarrow> int list \<Rightarrow> error + 'h list" where
  "gather_results get_credit_history [] = Inr []"
| "gather_results get_credit_history (i # ids) =
     (case get_credit_history i of
        Inl e \<Rightarrow> Inl e
      | Inr h \<Rightarrow>
          (case gather_results get_credit_history ids of
             Inl e \<Rightarrow> Inl e
           | Inr hs \<Rightarrow> Inr (h # hs)))"

text \<open>
  \<^verbatim>\<open>for funding_request, credit_history in zip(...): funding_request.borrower.history = credit_history\<close>
\<close>

fun assign_histories ::
  "(nat \<Rightarrow> ('h, 'b, 'f) scraped_funding_request) \<Rightarrow> nat list \<Rightarrow> 'h list
     \<Rightarrow> (nat \<Rightarrow> ('h, 'b, 'f) scraped_funding_request)" where
  "assign_histories store (p # ps) (h # hs) =
     assign_histories
       (store(p := (store p)\<lparr>scraped_borrower := (scraped_borrower (store p))\<lparr>history := Some h\<rparr>\<rparr>))
       ps hs"
| "assign_histories store _ _ = store"

definition gather_full_funding_requests ::
  "(int \<Rightarrow> error + 'h) \<Rightarrow> (nat \<Rightarrow> ('h, 'b, 'f) scraped_funding_request) \<Rightarrow> nat list
     \<Rightarrow> error + (nat list \<times> (nat \<Rightarrow> ('h, 'b, 'f) scraped_funding_request))" where
  "gather_full_funding_requests get_credit_history store funding_requests =
     (case gather_results get_credit_history (map (\<lambda>p. scraped_id (store p)) funding_requests) of
        Inl e \<Rightarrow> Inl e
      | Inr credit_histories \<Rightarrow>
          Inr (funding_requests, assign_histories store funding_requests credit_histories))"

definition example_store :: "nat \<Rightarrow> (string, unit, unit) scraped_funding_request" where
  "example_store p =
     \<lparr>scraped_id = int p + 100,
      scraped_borrower = \<lparr>history = None, borrower_fields = ()\<rparr>,
      request_fields = ()\<rparr>"

definition example_credit_history :: "int \<Rightarrow> error + string" where
  "example_credit_history i = Inr (if i = 100 then ''paid in time: 95'' else ''paid in time: 80'')"

definition example_data :: raw where
  "example_data =
     RDict [(''id_operacion'', RInt 1),
            (''solicitante'', RDict [(''descripcion'', RStr ''Pagador con DICOM'')]),
            (''pagadores'', RList [RDict [(''nombre'', RStr ''a'')], RDict []])]"

definition example_clean_text :: "string \<Rightarrow> string" where
  "example_clean_text s = map (\<lambda>c. if c = CHR ''P'' then CHR ''p'' else if c = CHR ''D'' then CHR ''d''
     else if c = CHR ''I'' then CHR ''i'' else if c = CHR ''C'' then CHR ''c''
     else if c = CHR ''O'' then CHR ''o'' else if c = CHR ''M'' then CHR ''m'' else c) s"

section \<open>Funded percentage (models/cumplo/funding_request.py)\<close>

text \<open>
  \<^verbatim>\<open>round(Decimal(int(value) / 100), 2)\<close>. The division of two Python integers gives a
  binary64 float: the quotient rounded to the nearest number with a 53-bit significand,
  ties to the even significand. A finite float is a rational, and \<open>Decimal(float)\<close> is
  that rational exactly. \<open>round(d, 2)\<close> on a \<open>Decimal\<close> quantizes it to two decimal
  places, ties to even, in the default context of 28 digits.
\<close>

definition round_half_even :: "rat \<Rightarrow> int" where
  "round_half_even x =
     (let n = \<lfloor>x\<rfloor>; r = x - of_int n
      in if r < 1 / 2 then n
         else if 1 / 2 < r then n + 1
         else if even n then n else n + 1)"

text \<open>
  The binary exponent \<open>e\<close> of the quotient of two positive integers:
  \<open>2\<^sup>e \<le> a / b < 2\<^sup>e\<^sup>+\<^sup>1\<close>, found from the bit lengths.
\<close>

definition binary_exponent :: "int \<Rightarrow> int \<Rightarrow> int" where
  "binary_exponent a b =
     (let k = bitlen a - bitlen b
      in if (2 :: rat) powi k \<le> of_int a / of_int b then k else k - 1)"

text \<open>
  Python's \<open>a / b\<close> on integers. The spacing of the floats around the quotient is
  \<open>2\<^sup>e\<^sup>-\<^sup>5\<^sup>2\<close>, and \<open>2\<^sup>-\<^sup>1\<^sup>0\<^sup>7\<^sup>4\<close> in the subnormal range; a rounded
  result of \<open>2\<^sup>1\<^sup>0\<^sup>2\<^sup>4\<close> or more in magnitude is an overflow.
\<close>

definition int_truediv :: "int \<Rightarrow> int \<Rightarrow> error + rat" where
  "int_truediv a b =
     (if b = 0 then Inl ZeroDivisionError
      else if a = 0 then Inr 0
      else
        let q = of_int a / of_int b;
            e = binary_exponent \<bar>a\<bar> \<bar>b\<bar>;
            ulp = 2 powi (max (e - 52) (- 1074));
            r = of_int (round_half_even (q / ulp)) * ulp
        in if 2 ^ 1024 \<le> \<bar>r\<bar> then Inl OverflowError else Inr r)"

text \<open>
  \<open>round(d, 2)\<close> for a \<open>Decimal\<close> \<open>d\<close>: the quantized value has the coefficient \<open>n\<close> and
  the exponent \<open>-2\<close>; a coefficient of more than 28 digits signals \<open>InvalidOperation\<close>.
\<close>

definition decimal_round2 :: "rat \<Rightarrow> error + rat" where
  "decimal_round2 d =
     (let n = round_half_even (d * 100)
      in if 10 ^ 28 \<le> \<bar>n\<bar> then Inl InvalidOperation else Inr (of_int n / 100))"

definition funded_percentage_validator :: "int \<Rightarrow> error + rat" where
  "funded_percentage_validator v =
     (case int_truediv v 100 of
        Inl e \<Rightarrow> Inl e
      | Inr x \<Rightarrow> decimal_round2 x)"

section \<open>Properties of the filter set evaluation\<close>

lemma all_apply_True_iff:
  "all_apply fs x = Inr True \<longleftrightarrow> (\<forall>f \<in> set fs. f x = Inr True)"
  by (induction fs) (auto split: sum.splits)

lemma all_apply_total:
  "\<forall>f \<in> set fs. \<exists>b. f x = Inr b \<Longrightarrow> \<exists>b. all_apply fs x = Inr b"
  by (induction fs) (auto split: sum.splits)

lemma all_apply_cases:
  "all_apply fs x = Inr b \<Longrightarrow> b = (\<forall>f \<in> set fs. f x = Inr True)"
  using all_apply_True_iff [of fs x] by (cases b) auto

lemma filter_funding_requests_Inr:
  "filter_funding_requests xs fs = Inr ys \<Longrightarrow>
     ys = filter (\<lambda>x. \<forall>f \<in> set fs. f x = Inr True) xs"
proof (induction xs arbitrary: ys)
  case Nil
  then show ?case by simp
next
  case (Cons x xs)
  from Cons.prems obtain b zs where
    b: "all_apply fs x = Inr b" and
    zs: "filter_funding_requests xs fs = Inr zs" and
    ys: "ys = (if b then x # zs else zs)"
    by (auto split: sum.splits)
  from b have "b = (\<forall>f \<in> set fs. f x = Inr True)" by (rule all_apply_cases)
  with Cons.IH [OF zs] ys show ?case by simp
qed

lemma filter_funding_requests_total:
  "\<forall>f \<in> set fs. \<forall>x \<in> set xs. \<exists>b. f x = Inr b \<Longrightarrow>
     \<exists>ys. filter_funding_requests xs fs = Inr ys"
proof (induction xs)
  case Nil
  then show ?case by simp
next
  case (Cons x xs)
  from Cons.prems have "\<forall>f \<in> set fs. \<exists>b. f x = Inr b" by simp
  then have "\<exists>b. all_apply fs x = Inr b" by (rule all_apply_total)
  then obtain b where b: "all_apply fs x = Inr b" ..
  from Cons.prems have "\<forall>f \<in> set fs. \<forall>x \<in> set xs. \<exists>b. f x = Inr b" by simp
  then have "\<exists>ys. filter_funding_requests xs fs = Inr ys" by (rule Cons.IH)
  then obtain ys where ys: "filter_funding_requests xs fs = Inr ys" ..
  show ?case by (simp add: b ys)
qed



section \<open>The result is a subsequence of the input\<close>

lemma count_list_filter_le: "count_list (filter P xs) x \<le> count_list xs x"
  by (induction xs) auto

lemma heap_ok_not_fresh: "heap_ok h \<Longrightarrow> cells h p = Some xs \<Longrightarrow> p \<noteq> fresh h"
  by (auto simp: heap_ok_def)

text \<open>
  C10. Called on a reference \<open>p\<close> to the list \<open>xs\<close>, the evaluation returns a reference
  \<open>q\<close> to a new list \<open>ys\<close> that is a subsequence of \<open>xs\<close>: every element of \<open>ys\<close> is in
  \<open>xs\<close>, in the order of \<open>xs\<close>, and no element occurs more often than in \<open>xs\<close>. The list at
  \<open>p\<close>, and every list other than the new one, is as before. The call returns when no
  filter raises on a request of the input.
\<close>

theorem filter_set_returns_subsequence:
  "heap_ok h \<and> cells h p = Some xs \<longrightarrow>
     (\<forall>q h'. filter_funding_requests_ref h p fs = Inr (q, h') \<longrightarrow>
        (\<exists>ys. cells h' q = Some ys \<and> subseq ys xs \<and> set ys \<subseteq> set xs
           \<and> (\<forall>x. count_list ys x \<le> count_list xs x))
        \<and> q \<noteq> p \<and> (\<forall>r. r \<noteq> q \<longrightarrow> cells h' r = cells h r) \<and> cells h' p = Some xs)
     \<and> ((\<forall>f \<in> set fs. \<forall>x \<in> set xs. \<exists>b. f x = Inr b) \<longrightarrow>
          (\<exists>q h'. filter_funding_requests_ref h p fs = Inr (q, h')))"
proof (intro impI conjI allI)
  fix q h'
  assume a: "heap_ok h \<and> cells h p = Some xs"
    and r: "filter_funding_requests_ref h p fs = Inr (q, h')"
  from a have ne: "p \<noteq> fresh h" by (auto dest: heap_ok_not_fresh)
  from a r obtain ys where
    ys: "filter_funding_requests xs fs = Inr ys" and
    q: "q = fresh h" and
    h': "h' = h\<lparr>cells := (cells h)(fresh h \<mapsto> ys), fresh := Suc (fresh h)\<rparr>"
    by (auto simp: filter_funding_requests_ref_def split: sum.splits)
  from ys have f: "ys = filter (\<lambda>x. \<forall>f \<in> set fs. f x = Inr True) xs"
    by (rule filter_funding_requests_Inr)
  have "cells h' q = Some ys" by (simp add: q h')
  moreover have "subseq ys xs" by (simp add: f)
  moreover have "set ys \<subseteq> set xs" by (auto simp: f)
  moreover have "\<forall>x. count_list ys x \<le> count_list xs x"
    by (simp add: f count_list_filter_le)
  ultimately show "\<exists>ys. cells h' q = Some ys \<and> subseq ys xs \<and> set ys \<subseteq> set xs
           \<and> (\<forall>x. count_list ys x \<le> count_list xs x)" by blast
  show "q \<noteq> p" using ne q by simp
  show "cells h' r = cells h r" if "r \<noteq> q" for r using that by (simp add: q h')
  show "cells h' p = Some xs" using a ne by (simp add: h')
next
  assume a: "heap_ok h \<and> cells h p = Some xs"
    and t: "\<forall>f \<in> set fs. \<forall>x \<in> set xs. \<exists>b. f x = Inr b"
  from t have "\<exists>ys. filter_funding_requests xs fs = Inr ys"
    by (rule filter_funding_requests_total)
  then obtain ys where "filter_funding_requests xs fs = Inr ys" ..
  with a show "\<exists>q h'. filter_funding_requests_ref h p fs = Inr (q, h')"
    by (simp add: filter_funding_requests_ref_def)
qed

theorem filter_set_returns_subsequence_witness:
  "heap_ok example_heap \<and> cells example_heap 0 = Some [1, 2, 3]
   \<and> filter_funding_requests_ref example_heap 0 example_filters
       = Inr (1, example_heap\<lparr>cells := (cells example_heap)(1 \<mapsto> [2]), fresh := 2\<rparr>)
   \<and> list_all (\<lambda>f. list_all (\<lambda>x. \<exists>b. f x = Inr b) [1, 2, 3]) example_filters
   \<and> (\<exists>ys. cells (example_heap\<lparr>cells := (cells example_heap)(1 \<mapsto> [2]), fresh := 2\<rparr>) 1 = Some ys
          \<and> subseq ys [1, 2, 3] \<and> set ys \<subseteq> set [1, 2, 3]
          \<and> (\<forall>x. count_list ys x \<le> count_list [1, 2, 3] x))
   \<and> cells (example_heap\<lparr>cells := (cells example_heap)(1 \<mapsto> [2]), fresh := 2\<rparr>) 0 = Some [1, 2, 3]"
proof -
  have hyp: "heap_ok example_heap \<and> cells example_heap 0 = Some [1, 2, 3]"
    by (auto simp: example_heap_def heap_ok_def)
  have run: "filter_funding_requests_ref example_heap 0 example_filters
       = Inr (1, example_heap\<lparr>cells := (cells example_heap)(1 \<mapsto> [2]), fresh := 2\<rparr>)"
    by (simp add: example_filters_def example_heap_def filter_funding_requests_ref_def)
  have tot: "\<forall>f \<in> set example_filters. \<forall>x \<in> set [1, 2, 3]. \<exists>b. f x = Inr b"
    by (auto simp: example_filters_def)
  from filter_set_returns_subsequence [of example_heap 0 "[1, 2, 3]" example_filters] hyp run
  have "(\<exists>ys. cells (example_heap\<lparr>cells := (cells example_heap)(1 \<mapsto> [2]), fresh := 2\<rparr>) 1 = Some ys
          \<and> subseq ys [1, 2, 3] \<and> set ys \<subseteq> set [1, 2, 3]
          \<and> (\<forall>x. count_list ys x \<le> count_list [1, 2, 3] x))
     \<and> cells (example_heap\<lparr>cells := (cells example_heap)(1 \<mapsto> [2]), fresh := 2\<rparr>) 0 = Some [1, 2, 3]"
    by blast
  moreover from tot
  have "list_all (\<lambda>f. list_all (\<lambda>x. \<exists>b. f x = Inr b) [1, 2, 3]) example_filters"
    by (simp add: list_all_iff)
  ultimately show ?thesis using hyp run by blast
qed

section \<open>The filters under an unset configuration\<close>

lemmas filter_apply_defs =
  CreditTypeFilter_apply_def MinimumInvestmentFilter_apply_def MinimumScoreFilter_apply_def
  MinimumMonthlyProfitFilter_apply_def MinimumIRRFilter_apply_def MinimumDurationFilter_apply_def
  MaximumDurationFilter_apply_def DebtorDicomFilter_apply_def BorrowerDicomFilter_apply_def
  MinimumCreditsRequestedFilter_apply_def MinimumAmountRequestedFilter_apply_def
  BorrowerMaximumAverageDaysDelinquentFilter_apply_def BorrowerMinimumPaidInTimeFilter_apply_def
  DebtorMinimumPaidInTimeFilter_apply_def

lemma filter_funding_requests_all_True:
  assumes "\<forall>f \<in> set fs. \<forall>x \<in> set xs. f x = Inr True"
  shows "filter_funding_requests xs fs = Inr xs"
proof -
  have "\<forall>f \<in> set fs. \<forall>x \<in> set xs. \<exists>b. f x = Inr b"
  proof (intro ballI)
    fix f x
    assume "f \<in> set fs" "x \<in> set xs"
    with assms have "f x = Inr True" by simp
    then show "\<exists>b. f x = Inr b" ..
  qed
  then have "\<exists>ys. filter_funding_requests xs fs = Inr ys"
    by (rule filter_funding_requests_total)
  then obtain ys where ys: "filter_funding_requests xs fs = Inr ys" ..
  then have "ys = filter (\<lambda>x. \<forall>f \<in> set fs. f x = Inr True) xs"
    by (rule filter_funding_requests_Inr)
  also have "\<dots> = xs" using assms by (simp add: filter_id_conv)
  finally show ?thesis using ys by simp
qed

lemma threshold_filters_pass:
  assumes "thresholds_unset c" "k \<noteq> DebtorDicomFilter" "k \<noteq> BorrowerDicomFilter"
  shows "apply_filter c k fr = Inr True"
  using assms
  by (cases k)
     (auto simp: thresholds_unset_def filter_apply_defs split: option.splits)

lemma dicom_filters_pass:
  assumes "dicom_ignored c"
  shows "apply_filter c DebtorDicomFilter fr = Inr True"
    and "apply_filter c BorrowerDicomFilter fr = Inr True"
  using assms
  by (auto simp: dicom_ignored_def filter_apply_defs split: option.splits)

text \<open>
  C3, as the code has it. Under a configuration with every threshold unset, each of the
  twelve threshold filters returns true on every funding request. The two DICOM filters
  have no threshold but an ignore toggle: when both toggles are set as well, all fourteen
  filters return true, and the filter set made of any of them returns its input list
  unchanged.
\<close>

theorem unset_thresholds_pass:
  "thresholds_unset c \<longrightarrow>
     (\<forall>k. k \<noteq> DebtorDicomFilter \<and> k \<noteq> BorrowerDicomFilter \<longrightarrow> apply_filter c k fr = Inr True)
     \<and> (dicom_ignored c \<longrightarrow>
          (\<forall>k. apply_filter c k fr = Inr True)
          \<and> (\<forall>ks. filter_funding_requests frs (map (apply_filter c) ks) = Inr frs))"
proof (intro impI conjI allI)
  fix k
  assume "thresholds_unset c" "k \<noteq> DebtorDicomFilter \<and> k \<noteq> BorrowerDicomFilter"
  then show "apply_filter c k fr = Inr True" by (simp add: threshold_filters_pass)
next
  fix k
  assume u: "thresholds_unset c" and d: "dicom_ignored c"
  show "apply_filter c k fr = Inr True"
    using u d threshold_filters_pass [of c k fr] dicom_filters_pass [of c fr] by blast
next
  fix ks
  assume u: "thresholds_unset c" and d: "dicom_ignored c"
  have "apply_filter c k x = Inr True" for k x
    using u d threshold_filters_pass [of c k x] dicom_filters_pass [of c x] by blast
  then have "\<forall>f \<in> set (map (apply_filter c) ks). \<forall>x \<in> set frs. f x = Inr True" by auto
  then show "filter_funding_requests frs (map (apply_filter c) ks) = Inr frs"
    by (rule filter_funding_requests_all_True)
qed

theorem unset_thresholds_pass_witness:
  "thresholds_unset ignoring_configuration \<and> dicom_ignored ignoring_configuration
   \<and> MinimumScoreFilter \<noteq> DebtorDicomFilter \<and> MinimumScoreFilter \<noteq> BorrowerDicomFilter
   \<and> apply_filter ignoring_configuration MinimumScoreFilter (example_request (Some True) None None)
       = Inr True
   \<and> apply_filter ignoring_configuration BorrowerDicomFilter (example_request (Some True) None None)
       = Inr True
   \<and> filter_funding_requests [example_request (Some True) None None]
        (map (apply_filter ignoring_configuration) all_filters)
       = Inr [example_request (Some True) None None]"
proof -
  have hyp: "thresholds_unset ignoring_configuration \<and> dicom_ignored ignoring_configuration"
    by (simp add: thresholds_unset_def dicom_ignored_def ignoring_configuration_def
          unset_configuration_def)
  note pass = unset_thresholds_pass [of ignoring_configuration
    "example_request (Some True) None None" "[example_request (Some True) None None]"]
  from pass hyp
  have "apply_filter ignoring_configuration MinimumScoreFilter
          (example_request (Some True) None None) = Inr True"
    by blast
  moreover from pass hyp
  have "apply_filter ignoring_configuration BorrowerDicomFilter
          (example_request (Some True) None None) = Inr True"
    by blast
  moreover from pass hyp
  have "filter_funding_requests [example_request (Some True) None None]
          (map (apply_filter ignoring_configuration) all_filters)
        = Inr [example_request (Some True) None None]"
    by blast
  ultimately show ?thesis using hyp by blast
qed

text \<open>
  The claim as stated fails: with every threshold unset and the toggles unset too, the
  borrower DICOM filter rejects a request whose borrower has DICOM, and the set of all
  fourteen filters returns the empty list for it. And zero is not "unset" for a threshold
  that the filter compares with \<open>is None\<close>: a minimum IRR of zero rejects a request
  with a negative IRR.
\<close>

theorem unset_thresholds_counterexample:
  "thresholds_unset unset_configuration
   \<and> apply_filter unset_configuration BorrowerDicomFilter (example_request (Some True) None None)
       = Inr False
   \<and> filter_funding_requests [example_request (Some True) None None]
        (map (apply_filter unset_configuration) all_filters) = Inr []
   \<and> minimum_irr zero_irr_configuration = Some 0
   \<and> apply_filter zero_irr_configuration MinimumIRRFilter negative_irr_request = Inr False"
  by (simp add: thresholds_unset_def unset_configuration_def example_request_def
        all_filters_def filter_apply_defs zero_irr_configuration_def
        ignoring_configuration_def negative_irr_request_def)

section \<open>Null signals and totality of the filters\<close>

text \<open>
  C5, as the code has it. Whatever the configuration, the borrower's delinquency filter
  returns true on a request whose borrower has no \<open>average_days_delinquent\<close>, and the
  borrower's paid-in-time filter returns true on a request whose borrower portfolio has no
  \<open>paid_in_time\<close>.
\<close>

theorem null_borrower_signals_pass:
  "(average_days_delinquent (borrower fr) = None \<longrightarrow>
      apply_filter c BorrowerMaximumAverageDaysDelinquentFilter fr = Inr True)
   \<and> (paid_in_time (borrower_portfolio (borrower fr)) = None \<longrightarrow>
        apply_filter c BorrowerMinimumPaidInTimeFilter fr = Inr True)"
  by (simp add: BorrowerMaximumAverageDaysDelinquentFilter_apply_def
        BorrowerMinimumPaidInTimeFilter_apply_def split: option.splits)

theorem null_borrower_signals_pass_witness:
  "average_days_delinquent (borrower (example_request None None None)) = None
   \<and> maximum_average_days_delinquent (the (configuration_borrower paid_in_time_configuration))
       = Some 10
   \<and> apply_filter paid_in_time_configuration BorrowerMaximumAverageDaysDelinquentFilter
        (example_request None None None) = Inr True
   \<and> paid_in_time (borrower_portfolio (borrower (example_request None None None))) = None
   \<and> borrower_minimum_paid_in_time_percentage
        (the (configuration_borrower paid_in_time_configuration)) = Some 50
   \<and> apply_filter paid_in_time_configuration BorrowerMinimumPaidInTimeFilter
        (example_request None None None) = Inr True"
proof -
  have hyp: "average_days_delinquent (borrower (example_request None None None)) = None
      \<and> paid_in_time (borrower_portfolio (borrower (example_request None None None))) = None"
    by (simp add: example_request_def)
  have cfg: "maximum_average_days_delinquent
        (the (configuration_borrower paid_in_time_configuration)) = Some 10
      \<and> borrower_minimum_paid_in_time_percentage
        (the (configuration_borrower paid_in_time_configuration)) = Some 50"
    by (simp add: paid_in_time_configuration_def)
  note pass = null_borrower_signals_pass
    [of "example_request None None None" paid_in_time_configuration]
  from pass hyp
  have "apply_filter paid_in_time_configuration BorrowerMaximumAverageDaysDelinquentFilter
          (example_request None None None) = Inr True"
    by (elim conjE impE)
  moreover from pass hyp
  have "apply_filter paid_in_time_configuration BorrowerMinimumPaidInTimeFilter
          (example_request None None None) = Inr True"
    by (elim conjE impE)
  ultimately show ?thesis using hyp cfg by (intro conjI) (elim conjE, assumption)+
qed

text \<open>
  The claim as stated fails for the debtor's paid-in-time filter: with its threshold
  configured and a request whose only debtor has no \<open>paid_in_time\<close>, the filter does not
  return true; it raises at \<open>funding_request.debtor\<close>.
\<close>

theorem null_debtor_signal_counterexample:
  "debtor_minimum_paid_in_time_percentage (the (configuration_debtor paid_in_time_configuration))
     = Some 50
   \<and> map (paid_in_time \<circ> debtor_portfolio) (debtors (example_request None None None)) = [None]
   \<and> apply_filter paid_in_time_configuration DebtorMinimumPaidInTimeFilter
        (example_request None None None) \<noteq> Inr True
   \<and> apply_filter paid_in_time_configuration DebtorMinimumPaidInTimeFilter
        (example_request None None None) = Inl AttributeError"
  by (simp add: paid_in_time_configuration_def unset_configuration_def example_request_def
        DebtorMinimumPaidInTimeFilter_apply_def funding_request_debtor_def)

text \<open>
  Past the attribute access, the filter's last expression is false when no debtor has a
  \<open>paid_in_time\<close>: \<open>any\<close> ranges over an empty generator.
\<close>

lemma any_debtor_paid_in_time_all_null:
  "list_all (\<lambda>debtor. paid_in_time (debtor_portfolio debtor) = None) ds \<Longrightarrow>
     \<not> any_debtor_paid_in_time minimum ds"
  by (induction ds) (auto simp: any_debtor_paid_in_time_def)

text \<open>
  C8. The claim says that no filter raises on well-typed input. The debtor's paid-in-time
  filter, with its threshold configured at 50, raises \<open>AttributeError\<close> on a request whose
  one debtor paid 90 percent in time.
\<close>

theorem debtor_paid_in_time_filter_raises:
  "apply_filter paid_in_time_configuration DebtorMinimumPaidInTimeFilter
     (example_request None (Some 90) (Some 90)) = Inl AttributeError"
  by (simp add: paid_in_time_configuration_def unset_configuration_def
        DebtorMinimumPaidInTimeFilter_apply_def funding_request_debtor_def)

section \<open>DICOM inference\<close>

lemma str_in_sublist: "str_in marker description = sublist marker description"
  by (induction description) (auto simp: sublist_Cons_right)

text \<open>
  C4, as the code has it. The inference is a function of the marker table and the cleaned
  description alone. A both-positive marker gives (true, true) whatever else is present;
  otherwise a both-negative marker gives (false, false); otherwise the debtor flag is
  true exactly when the debtor-positive marker is present and unknown if not, and the
  borrower flag is false when the borrower-negative marker is present, whether or not a
  borrower-positive marker is present too; else true when a borrower-positive marker is
  present; else false when a single-negative marker is present; else true when a
  single-positive marker is present; else unknown.
\<close>

theorem dicom_priority_order:
  "dicom_status_of_description M d =
     (if str_in (BOTH_TRUE M) d then (Some True, Some True)
      else if str_in (BOTH_FALSE M) d then (Some False, Some False)
      else
        (if str_in (DEBTOR_TRUE M) d then Some True else None,
         if str_in (BORROWER_FALSE M) d then Some False
         else if any_in (BORROWER_TRUE M) d then Some True
         else if any_in (SINGLE_FALSE M) d then Some False
         else if any_in (SINGLE_TRUE M) d then Some True
         else None))"
  by (simp add: dicom_status_of_description_def Let_def)

text \<open>
  The claim as stated fails: it lets the borrower-negative marker act only when no
  borrower-positive marker matched. On a description holding both (and neither of the
  two "both" markers) the code answers false for the borrower, where the claim's
  order answers true.
\<close>

theorem borrower_negative_counterexample:
  "any_in (BORROWER_TRUE example_markers) ''solicitante con dicom, solicitante sin dicom''
   \<and> str_in (BORROWER_FALSE example_markers) ''solicitante con dicom, solicitante sin dicom''
   \<and> \<not> str_in (BOTH_TRUE example_markers) ''solicitante con dicom, solicitante sin dicom''
   \<and> \<not> str_in (BOTH_FALSE example_markers) ''solicitante con dicom, solicitante sin dicom''
   \<and> dicom_status_of_description example_markers
        ''solicitante con dicom, solicitante sin dicom'' = (None, Some False)"
  by (simp add: dicom_status_of_description_def example_markers_def any_in_def Let_def)

section \<open>Credit type translation\<close>

text \<open>
  C6. The validator maps the five upstream values by the fixed table (irrigation to
  state subsidy, simple to working capital, balloon and bullet to bullet loan, invoice
  to factoring), so a returned credit type is one of the four canonical values, and it
  raises on every other value.
\<close>

theorem credit_type_translation:
  "credit_type_validator v =
     (if v = ''irrigation'' then Inr STATE_SUBSIDY
      else if v = ''simple'' then Inr WORKING_CAPITAL
      else if v = ''balloon'' then Inr BULLET_LOAN
      else if v = ''bullet'' then Inr BULLET_LOAN
      else if v = ''invoice'' then Inr FACTORING
      else Inl KeyError)"
  by (simp add: credit_type_validator_def CREDIT_TYPE_TRANSLATIONS_def)

section \<open>Union over a user's configurations\<close>

lemma update_promising_union:
  "\<forall>c \<in> set cs. filter_of payload c = Inr (accepted c) \<Longrightarrow>
     update_promising filter_of payload cs promising
       = Inr (promising \<union> (\<Union>c \<in> set cs. set (accepted c)))"
proof (induction cs arbitrary: promising)
  case Nil
  then show ?case by simp
next
  case (Cons c cs)
  from Cons.prems have c: "filter_of payload c = Inr (accepted c)" by simp
  from Cons.prems have "\<forall>c \<in> set cs. filter_of payload c = Inr (accepted c)" by simp
  then have "update_promising filter_of payload cs (promising \<union> set (accepted c))
      = Inr ((promising \<union> set (accepted c)) \<union> (\<Union>c \<in> set cs. set (accepted c)))"
    by (rule Cons.IH)
  with c show ?case by (simp add: Un_assoc)
qed

text \<open>
  C2, as the code has it. When the per-configuration filter returns for each of the
  user's configurations, the router's promising set is the union of the sets of requests
  accepted under each configuration; a request accepted twice is one element. The public
  router gives the same union for a user with at least one filter configuration, and the
  whole payload for a user with none.
\<close>

theorem promising_is_union:
  "(\<forall>c \<in> set cs. filter_of payload c = Inr (accepted c)) \<longrightarrow>
     router_filter_funding_requests filter_of payload cs = Inr (\<Union>c \<in> set cs. set (accepted c))
     \<and> (cs \<noteq> [] \<longrightarrow>
          public_filter_funding_requests filter_of payload cs
            = Inr (\<Union>c \<in> set cs. set (accepted c)))
     \<and> (cs = [] \<longrightarrow> public_filter_funding_requests filter_of payload cs = Inr (set payload))"
proof (intro impI conjI)
  assume a: "\<forall>c \<in> set cs. filter_of payload c = Inr (accepted c)"
  note u = update_promising_union [of cs filter_of payload accepted "{}", OF a]
  from u show "router_filter_funding_requests filter_of payload cs = Inr (\<Union>c \<in> set cs. set (accepted c))"
    by (simp add: router_filter_funding_requests_def)
  assume "cs \<noteq> []"
  with u show "public_filter_funding_requests filter_of payload cs = Inr (\<Union>c \<in> set cs. set (accepted c))"
    by (simp add: public_filter_funding_requests_def)
next
  assume "cs = []"
  then show "public_filter_funding_requests filter_of payload cs = Inr (set payload)"
    by (simp add: public_filter_funding_requests_def)
qed

theorem promising_is_union_witness:
  "list_all (\<lambda>c. example_accepts [1, 2, 3, 4] c
      = Inr (filter (\<lambda>x. if c = ''A'' then x = 1 \<or> x = 2 else x = 2 \<or> x = 3) [1, 2, 3, 4]))
     [''A'', ''B'']
   \<and> example_accepts [1, 2, 3, 4] ''A'' = Inr [1, 2]
   \<and> example_accepts [1, 2, 3, 4] ''B'' = Inr [2, 3]
   \<and> router_filter_funding_requests example_accepts [1, 2, 3, 4] [''A'', ''B''] = Inr {1, 2, 3}
   \<and> public_filter_funding_requests example_accepts [1, 2, 3, 4] [''A'', ''B''] = Inr {1, 2, 3}
   \<and> public_filter_funding_requests example_accepts [1, 2, 3, 4] [] = Inr {1, 2, 3, 4}"
proof -
  have hyp: "\<forall>c \<in> set [''A'', ''B'']. example_accepts [1, 2, 3, 4] c
      = Inr (filter (\<lambda>x. if c = ''A'' then x = 1 \<or> x = 2 else x = 2 \<or> x = 3) [1, 2, 3, 4])"
    by (simp add: example_accepts_def)
  have hyp0: "\<forall>c \<in> set []. example_accepts [1, 2, 3, 4] c
      = Inr (filter (\<lambda>x. if c = ''A'' then x = 1 \<or> x = 2 else x = 2 \<or> x = 3) [1, 2, 3, 4])"
    by simp
  have u: "(\<Union>c \<in> set [''A'', ''B''].
        set (filter (\<lambda>x. if c = ''A'' then x = 1 \<or> x = 2 else x = 2 \<or> x = 3) [1, 2, 3, 4 :: nat]))
      = {1, 2, 3}"
    by auto
  note pass = promising_is_union [of "[''A'', ''B'']" example_accepts "[1, 2, 3, 4]"
      "\<lambda>c. filter (\<lambda>x. if c = ''A'' then x = 1 \<or> x = 2 else x = 2 \<or> x = 3) [1, 2, 3, 4]"]
  note pass0 = promising_is_union [of "[]" example_accepts "[1, 2, 3, 4]"
      "\<lambda>c. filter (\<lambda>x. if c = ''A'' then x = 1 \<or> x = 2 else x = 2 \<or> x = 3) [1, 2, 3, 4]"]
  from pass hyp have "router_filter_funding_requests example_accepts [1, 2, 3, 4] [''A'', ''B'']
      = Inr {1, 2, 3}"
    unfolding u by simp
  moreover from pass hyp
  have "public_filter_funding_requests example_accepts [1, 2, 3, 4] [''A'', ''B'']
      = Inr {1, 2, 3}"
    unfolding u by simp
  moreover from pass0 hyp0
  have "public_filter_funding_requests example_accepts [1, 2, 3, 4] [] = Inr {1, 2, 3, 4}"
    by simp
  moreover have "example_accepts [1, 2, 3, 4] ''A'' = Inr [1, 2]"
    and "example_accepts [1, 2, 3, 4] ''B'' = Inr [2, 3]"
    by (simp_all add: example_accepts_def)
  ultimately show ?thesis using hyp by (simp add: list_all_iff)
qed

text \<open>
  The claim as stated fails on the public router: for a user with no configuration the
  union over the configurations is empty, and the router answers with the whole payload.
\<close>

theorem no_configuration_counterexample:
  "public_filter_funding_requests example_accepts [1, 2, 3, 4] [] = Inr {1, 2, 3, 4}
   \<and> (\<Union>c \<in> set ([] :: string list). set (projr (example_accepts [1, 2, 3, 4] c))) = {}
   \<and> public_filter_funding_requests example_accepts [1, 2, 3, 4] []
       \<noteq> Inr (\<Union>c \<in> set []. set (projr (example_accepts [1, 2, 3, 4] c)))"
  by (simp add: public_filter_funding_requests_def)

section \<open>Where requests are mutated\<close>

lemma getitem_setitem_same: "setitem d k v = Inr d' \<Longrightarrow> getitem d' k = Inr v"
  by (cases d) (auto simp: setitem_def getitem_def update_conv')

lemma getitem_setitem_other:
  "setitem d k v = Inr d' \<Longrightarrow> k' \<noteq> k \<Longrightarrow> getitem d' k' = getitem d k'"
  by (cases d) (auto simp: setitem_def getitem_def update_conv')

lemma set_debtors_dicom_all:
  "set_debtors_dicom v ds = Inr ds' \<Longrightarrow>
     length ds' = length ds \<and> (\<forall>d \<in> set ds'. getitem d ''dicom'' = Inr v)"
proof (induction ds arbitrary: ds')
  case Nil
  then show ?case by simp
next
  case (Cons d ds)
  from Cons.prems obtain d' rest' where
    d': "setitem d ''dicom'' v = Inr d'" and
    rest': "set_debtors_dicom v ds = Inr rest'" and
    ds': "ds' = d' # rest'"
    by (auto split: sum.splits)
  from d' have "getitem d' ''dicom'' = Inr v" by (rule getitem_setitem_same)
  with Cons.IH [OF rest'] ds' show ?case by simp
qed

lemma set_dicom_status_flags:
  assumes "set_dicom_status M ct data = Inr data'"
    and "identify_dicom_status M ct data = Inr (dd, bd)"
  shows "\<exists>sol'. getitem data' ''solicitante'' = Inr sol'
           \<and> getitem sol' ''dicom'' = Inr (raw_of_flag bd)"
    and "getitem data' ''pagadores'' = Inr (RList ds') \<Longrightarrow>
           \<forall>d \<in> set ds'. getitem d ''dicom'' = Inr (raw_of_flag dd)"
proof -
  from assms obtain sol sol' data1 pags where
    sol: "getitem data ''solicitante'' = Inr sol" and
    sol': "setitem sol ''dicom'' (raw_of_flag bd) = Inr sol'" and
    data1: "setitem data ''solicitante'' sol' = Inr data1" and
    pags: "getitem data1 ''pagadores'' = Inr pags"
    by (auto simp: set_dicom_status_def split: sum.splits)
  have s1: "getitem data1 ''solicitante'' = Inr sol'"
    using data1 by (rule getitem_setitem_same)
  have s2: "getitem sol' ''dicom'' = Inr (raw_of_flag bd)"
    using sol' by (rule getitem_setitem_same)
  from assms sol sol' data1 pags
  have fin: "(\<exists>ds ds1. pags = RList ds \<and> set_debtors_dicom (raw_of_flag dd) ds = Inr ds1
                \<and> setitem data1 ''pagadores'' (RList ds1) = Inr data')
             \<or> ((pags = RDict [] \<or> pags = RStr []) \<and> data' = data1)"
    by (auto simp: set_dicom_status_def split: sum.splits raw.splits list.splits)
  show "\<exists>sol'. getitem data' ''solicitante'' = Inr sol'
           \<and> getitem sol' ''dicom'' = Inr (raw_of_flag bd)"
  proof -
    from fin have "getitem data' ''solicitante'' = Inr sol'"
    proof
      assume "\<exists>ds ds1. pags = RList ds \<and> set_debtors_dicom (raw_of_flag dd) ds = Inr ds1
                \<and> setitem data1 ''pagadores'' (RList ds1) = Inr data'"
      then obtain ds1 where "setitem data1 ''pagadores'' (RList ds1) = Inr data'" by blast
      then have "getitem data' ''solicitante'' = getitem data1 ''solicitante''"
        by (rule getitem_setitem_other) simp
      with s1 show ?thesis by simp
    next
      assume "(pags = RDict [] \<or> pags = RStr []) \<and> data' = data1"
      with s1 show ?thesis by simp
    qed
    with s2 show ?thesis by blast
  qed
  show "\<forall>d \<in> set ds'. getitem d ''dicom'' = Inr (raw_of_flag dd)"
    if g: "getitem data' ''pagadores'' = Inr (RList ds')"
    using fin
  proof
    assume "\<exists>ds ds1. pags = RList ds \<and> set_debtors_dicom (raw_of_flag dd) ds = Inr ds1
                \<and> setitem data1 ''pagadores'' (RList ds1) = Inr data'"
    then obtain ds ds1 where
      d1: "set_debtors_dicom (raw_of_flag dd) ds = Inr ds1" and
      d2: "setitem data1 ''pagadores'' (RList ds1) = Inr data'"
      by blast
    from d2 have "getitem data' ''pagadores'' = Inr (RList ds1)"
      by (rule getitem_setitem_same)
    with g have "ds' = ds1" by simp
    with set_debtors_dicom_all [OF d1] show ?thesis by simp
  next
    assume "(pags = RDict [] \<or> pags = RStr []) \<and> data' = data1"
    with pags g show ?thesis by auto
  qed
qed

lemma assign_histories_other:
  "p \<notin> set ps \<Longrightarrow> assign_histories store ps hs p = store p"
  by (induction store ps hs rule: assign_histories.induct) auto

lemma assign_histories_frame:
  "scraped_id (assign_histories store ps hs p) = scraped_id (store p)
   \<and> request_fields (assign_histories store ps hs p) = request_fields (store p)
   \<and> borrower_fields (scraped_borrower (assign_histories store ps hs p))
       = borrower_fields (scraped_borrower (store p))"
proof (induction store ps hs rule: assign_histories.induct)
  case (1 store q ps h hs)
  then show ?case by (cases "p = q") (simp_all add: fun_upd_def)
qed simp_all

lemma gather_results_all2:
  "gather_results get ids = Inr hs \<Longrightarrow> list_all2 (\<lambda>i h. get i = Inr h) ids hs"
proof (induction ids arbitrary: hs)
  case Nil
  then show ?case by simp
next
  case (Cons i ids)
  from Cons.prems obtain h hs' where
    "get i = Inr h" "gather_results get ids = Inr hs'" "hs = h # hs'"
    by (auto split: sum.splits)
  with Cons.IH [of hs'] show ?case by simp
qed

lemma assign_histories_history:
  "list_all2 (\<lambda>p h. get (scraped_id (store0 p)) = Inr h) ps hs \<Longrightarrow>
   \<forall>p. scraped_id (store p) = scraped_id (store0 p) \<Longrightarrow> p \<in> set ps \<Longrightarrow>
     \<exists>h. get (scraped_id (store0 p)) = Inr h
        \<and> history (scraped_borrower (assign_histories store ps hs p)) = Some h"
proof (induction ps hs arbitrary: store rule: list_all2_induct)
  case Nil
  then show ?case by simp
next
  case (Cons q ps h hs)
  let ?store = "store(q := (store q)\<lparr>scraped_borrower := (scraped_borrower (store q))\<lparr>history := Some h\<rparr>\<rparr>)"
  have ids: "\<forall>p. scraped_id (?store p) = scraped_id (store0 p)"
    using Cons.prems(1) by simp
  show ?case
  proof (cases "p \<in> set ps")
    case True
    from Cons.IH [OF ids True] show ?thesis by (simp add: fun_upd_def)
  next
    case False
    with Cons.prems(2) have pq: "p = q" by simp
    from False have "assign_histories ?store ps hs p = ?store p"
      by (rule assign_histories_other)
    with pq Cons.hyps(1) show ?thesis by simp
  qed
qed

text \<open>
  C9, as the code has it. The pre-validation hook writes the inferred flags onto the raw
  payload: after it, the borrower entry carries the borrower flag under \<open>dicom\<close> and every
  entry of the debtor list carries the debtor flag. The enrichment step does change
  constructed requests: it returns the references it was given, and in the store it
  assigns \<open>borrower.history\<close> of every listed request the credit history fetched for the
  request's id; it leaves the id, the other attributes of the request and of its
  borrower, and every request not in the list as they were.
\<close>

theorem flags_before_validation_history_after:
  "(preprocess_data M ct data = Inr data' \<and> identify_dicom_status M ct data = Inr (dd, bd) \<longrightarrow>
      (\<exists>sol'. getitem data' ''solicitante'' = Inr sol'
          \<and> getitem sol' ''dicom'' = Inr (raw_of_flag bd))
      \<and> (\<forall>ds'. getitem data' ''pagadores'' = Inr (RList ds') \<longrightarrow>
            (\<forall>d \<in> set ds'. getitem d ''dicom'' = Inr (raw_of_flag dd))))
   \<and> (gather_full_funding_requests get store refs = Inr (refs', store') \<longrightarrow>
        refs' = refs
        \<and> (\<forall>p. p \<notin> set refs \<longrightarrow> store' p = store p)
        \<and> (\<forall>p. scraped_id (store' p) = scraped_id (store p)
              \<and> request_fields (store' p) = request_fields (store p)
              \<and> borrower_fields (scraped_borrower (store' p))
                  = borrower_fields (scraped_borrower (store p)))
        \<and> (\<forall>p \<in> set refs. \<exists>h. get (scraped_id (store p)) = Inr h
              \<and> history (scraped_borrower (store' p)) = Some h))"
proof (intro conjI impI allI ballI)
  assume a: "preprocess_data M ct data = Inr data' \<and> identify_dicom_status M ct data = Inr (dd, bd)"
  then have s: "set_dicom_status M ct data = Inr data'"
    by (auto simp: preprocess_data_def split: sum.splits)
  from a have i: "identify_dicom_status M ct data = Inr (dd, bd)" by simp
  from set_dicom_status_flags(1) [OF s i]
  show "\<exists>sol'. getitem data' ''solicitante'' = Inr sol'
          \<and> getitem sol' ''dicom'' = Inr (raw_of_flag bd)" .
  fix ds' d
  assume "getitem data' ''pagadores'' = Inr (RList ds')" "d \<in> set ds'"
  with set_dicom_status_flags(2) [OF s i]
  show "getitem d ''dicom'' = Inr (raw_of_flag dd)" by blast
next
  assume g: "gather_full_funding_requests get store refs = Inr (refs', store')"
  then obtain hs where
    hs: "gather_results get (map (\<lambda>p. scraped_id (store p)) refs) = Inr hs" and
    refs': "refs' = refs" and
    store': "store' = assign_histories store refs hs"
    by (auto simp: gather_full_funding_requests_def split: sum.splits)
  show "refs' = refs" by (rule refs')
  show "store' p = store p" if "p \<notin> set refs" for p
    using that by (simp add: store' assign_histories_other)
  show "scraped_id (store' p) = scraped_id (store p)" for p
    by (simp add: store' assign_histories_frame)
  show "request_fields (store' p) = request_fields (store p)" for p
    by (simp add: store' assign_histories_frame)
  show "borrower_fields (scraped_borrower (store' p))
      = borrower_fields (scraped_borrower (store p))" for p
    by (simp add: store' assign_histories_frame)
  show "\<exists>h. get (scraped_id (store p)) = Inr h
      \<and> history (scraped_borrower (store' p)) = Some h" if "p \<in> set refs" for p
  proof -
    from hs have "list_all2 (\<lambda>i h. get i = Inr h) (map (\<lambda>p. scraped_id (store p)) refs) hs"
      by (rule gather_results_all2)
    then have "list_all2 (\<lambda>p h. get (scraped_id (store p)) = Inr h) refs hs"
      by (simp add: list_all2_map1)
    from assign_histories_history [OF this _ that, of store]
    show ?thesis by (simp add: store')
  qed
qed

theorem flags_before_validation_history_after_witness:
  "preprocess_data example_markers example_clean_text example_data
     = Inr (RDict [(''id_operacion'', RInt 1),
            (''solicitante'', RDict [(''descripcion'', RStr ''Pagador con DICOM''),
                                     (''dicom'', RNone)]),
            (''pagadores'', RList [RDict [(''nombre'', RStr ''a''), (''dicom'', RBool True)],
                                   RDict [(''dicom'', RBool True)]])])
   \<and> identify_dicom_status example_markers example_clean_text example_data
       = Inr (Some True, None)
   \<and> gather_full_funding_requests example_credit_history example_store [0, 1]
       = Inr ([0, 1], assign_histories example_store [0, 1]
                        [''paid in time: 95'', ''paid in time: 80''])
   \<and> assign_histories example_store [0, 1] [''paid in time: 95'', ''paid in time: 80''] 2
       = example_store 2
   \<and> scraped_id (assign_histories example_store [0, 1]
        [''paid in time: 95'', ''paid in time: 80''] 0) = scraped_id (example_store 0)
   \<and> (\<exists>h. example_credit_history (scraped_id (example_store 0)) = Inr h
         \<and> history (scraped_borrower (assign_histories example_store [0, 1]
              [''paid in time: 95'', ''paid in time: 80''] 0)) = Some h)
   \<and> (\<exists>sol'. getitem (projr (preprocess_data example_markers example_clean_text example_data))
                  ''solicitante'' = Inr sol'
          \<and> getitem sol' ''dicom'' = Inr (raw_of_flag None))"
proof -
  let ?data' = "RDict [(''id_operacion'', RInt 1),
            (''solicitante'', RDict [(''descripcion'', RStr ''Pagador con DICOM''),
                                     (''dicom'', RNone)]),
            (''pagadores'', RList [RDict [(''nombre'', RStr ''a''), (''dicom'', RBool True)],
                                   RDict [(''dicom'', RBool True)]])]"
  let ?store' = "assign_histories example_store [0, 1] [''paid in time: 95'', ''paid in time: 80'']"
  have i: "identify_dicom_status example_markers example_clean_text example_data
      = Inr (Some True, None)"
    by (simp add: identify_dicom_status_def example_data_def getitem_def example_clean_text_def
          dicom_status_of_description_def example_markers_def any_in_def Let_def)
  have p: "preprocess_data example_markers example_clean_text example_data = Inr ?data'"
    by (simp add: preprocess_data_def set_dicom_status_def i)
       (simp add: example_data_def getitem_def setitem_def)
  have g: "gather_full_funding_requests example_credit_history example_store [0, 1]
      = Inr ([0, 1], ?store')"
    by (simp add: gather_full_funding_requests_def example_credit_history_def example_store_def)
  note pass = flags_before_validation_history_after
    [of example_markers example_clean_text example_data ?data' "Some True" None
        example_credit_history example_store "[0, 1]" "[0, 1]" ?store']
  from pass g have "?store' 2 = example_store 2" by simp
  moreover from pass g have "scraped_id (?store' 0) = scraped_id (example_store 0)" by blast
  moreover from pass g
  have "\<exists>h. example_credit_history (scraped_id (example_store 0)) = Inr h
         \<and> history (scraped_borrower (?store' 0)) = Some h"
    by simp
  moreover from pass p i
  have "\<exists>sol'. getitem (projr (preprocess_data example_markers example_clean_text example_data))
                  ''solicitante'' = Inr sol'
          \<and> getitem sol' ''dicom'' = Inr (raw_of_flag None)"
    by simp
  ultimately show ?thesis using i p g by blast
qed

text \<open>
  The claim as stated fails: the enrichment step modifies a constructed request. A
  request whose borrower has no history has one after the step.
\<close>

theorem enrichment_mutates_counterexample:
  "history (scraped_borrower (example_store 0)) = None
   \<and> gather_full_funding_requests example_credit_history example_store [0]
       = Inr ([0], assign_histories example_store [0] [''paid in time: 95''])
   \<and> history (scraped_borrower (assign_histories example_store [0] [''paid in time: 95''] 0))
       = Some ''paid in time: 95''
   \<and> assign_histories example_store [0] [''paid in time: 95''] 0 \<noteq> example_store 0"
  by (simp add: gather_full_funding_requests_def example_credit_history_def example_store_def)

section \<open>Funded percentage\<close>

lemma round_half_even_error: "\<bar>of_int (round_half_even x) - x\<bar> \<le> 1 / 2"
proof -
  have "of_int \<lfloor>x\<rfloor> \<le> x" "x < of_int \<lfloor>x\<rfloor> + 1" by linarith+
  then show ?thesis
    by (auto simp: round_half_even_def Let_def abs_le_iff)
qed

lemma round_half_even_near:
  assumes "\<bar>x - of_int n\<bar> < 1 / 2"
  shows "round_half_even x = n"
proof -
  have e: "\<bar>of_int (round_half_even x) - x\<bar> \<le> 1 / 2" by (rule round_half_even_error)
  have "\<bar>(of_int (round_half_even x) :: rat) - of_int n\<bar> < 1"
    using assms e by linarith
  then have "\<bar>(of_int (round_half_even x - n) :: rat)\<bar> < 1" by simp
  then have "\<bar>round_half_even x - n\<bar> < 1"
    by (metis of_int_abs of_int_less_1_iff)
  then show ?thesis by simp
qed

lemma bitlen_lower: "0 < a \<Longrightarrow> (2 :: rat) powi (bitlen a - 1) \<le> of_int a"
proof -
  assume a: "0 < a"
  then have "1 \<le> bitlen a" by (auto simp: bitlen_alt_def)
  moreover from bitlen_bounds [OF a] have "(2 :: int) ^ nat (bitlen a - 1) \<le> a" by simp
  then have "(of_int ((2 :: int) ^ nat (bitlen a - 1)) :: rat) \<le> of_int a"
    by (simp only: of_int_le_iff)
  ultimately show ?thesis by (simp add: power_int_def)
qed

lemma bitlen_upper: "0 < a \<Longrightarrow> of_int a < (2 :: rat) powi (bitlen a)"
proof -
  assume a: "0 < a"
  from bitlen_bounds [OF a] have "a < (2 :: int) ^ nat (bitlen a)" by simp
  then have "(of_int a :: rat) < of_int ((2 :: int) ^ nat (bitlen a))"
    by (simp only: of_int_less_iff)
  then show ?thesis using bitlen_nonneg [of a] by (simp add: power_int_def)
qed

lemma binary_exponent_lower:
  assumes "0 < a" "0 < b"
  shows "(2 :: rat) powi (binary_exponent a b) \<le> of_int a / of_int b"
proof (cases "(2 :: rat) powi (bitlen a - bitlen b) \<le> of_int a / of_int b")
  case True
  then show ?thesis by (simp add: binary_exponent_def)
next
  case False
  have "(2 :: rat) powi ((bitlen a - 1) - bitlen b) = 2 powi (bitlen a - 1) / 2 powi (bitlen b)"
    by (rule power_int_diff) simp
  moreover have "bitlen a - bitlen b - 1 = (bitlen a - 1) - bitlen b" by simp
  ultimately
  have "(2 :: rat) powi (bitlen a - bitlen b - 1) = 2 powi (bitlen a - 1) / 2 powi (bitlen b)"
    by (simp only:)
  also have "\<dots> \<le> of_int a / 2 powi (bitlen b)"
    using bitlen_lower [OF assms(1)] by (simp add: divide_right_mono)
  also have "\<dots> \<le> of_int a / of_int b"
    using bitlen_upper [OF assms(2)] assms by (simp add: frac_le)
  finally show ?thesis using False by (simp add: binary_exponent_def)
qed

lemma binary_exponent_upper:
  assumes "0 < a" "0 < b"
  shows "of_int a / of_int b < (2 :: rat) powi (binary_exponent a b + 1)"
proof (cases "(2 :: rat) powi (bitlen a - bitlen b) \<le> of_int a / of_int b")
  case True
  have "of_int a / of_int b < (2 :: rat) powi (bitlen a) / of_int b"
    using bitlen_upper [OF assms(1)] assms by (simp add: divide_strict_right_mono)
  also have "\<dots> \<le> 2 powi (bitlen a) / 2 powi (bitlen b - 1)"
    using bitlen_lower [OF assms(2)] assms by (simp add: frac_le)
  also have "\<dots> = 2 powi (bitlen a - (bitlen b - 1))"
    by (rule power_int_diff [symmetric]) simp
  also have "bitlen a - (bitlen b - 1) = bitlen a - bitlen b + 1" by simp
  finally show ?thesis using True by (simp add: binary_exponent_def)
next
  case False
  then show ?thesis by (simp add: binary_exponent_def)
qed

lemma funded_percentage_exact:
  assumes v: "\<bar>v\<bar> < 2 ^ 52"
  shows "funded_percentage_validator v = Inr (of_int v / 100)"
proof (cases "v = 0")
  case True
  then show ?thesis
    by (simp add: funded_percentage_validator_def int_truediv_def decimal_round2_def
          round_half_even_def)
next
  case False
  define q :: rat where "q = of_int v / of_int 100"
  define e where "e = binary_exponent \<bar>v\<bar> \<bar>100\<bar>"
  define ulp :: rat where "ulp = 2 powi (max (e - 52) (- 1074))"
  define r :: rat where "r = of_int (round_half_even (q / ulp)) * ulp"
  have ulp_pos: "0 < ulp" by (simp add: ulp_def)
  have q_abs: "\<bar>q\<bar> = of_int \<bar>v\<bar> / 100" by (simp add: q_def)
  have q_bound: "\<bar>q\<bar> < 2 ^ 52 / 100"
  proof -
    from v have "(of_int \<bar>v\<bar> :: rat) < of_int (2 ^ 52)" by (simp only: of_int_less_iff)
    then show ?thesis by (simp add: q_abs)
  qed
  have e_lower: "2 powi e \<le> \<bar>q\<bar>"
    using binary_exponent_lower [of "\<bar>v\<bar>" 100] False by (simp add: e_def q_abs)
  have ulp_small: "ulp < 1 / 100"
  proof (cases "- 1074 \<le> e - 52")
    case True
    then have "ulp = 2 powi (e - 52)" by (simp only: ulp_def max_absorb1)
    also have "\<dots> = 2 powi e / 2 ^ 52" by (simp add: power_int_diff)
    also have "\<dots> \<le> \<bar>q\<bar> / 2 ^ 52" using e_lower by (simp add: divide_right_mono)
    also have "\<dots> < (2 ^ 52 / 100) / 2 ^ 52" using q_bound by (simp add: divide_strict_right_mono)
    finally show ?thesis by simp
  next
    case False
    then have "e - 52 \<le> - 1074" by simp
    then have "ulp = 2 powi (- 1074)" by (simp only: ulp_def max_absorb2)
    also have "\<dots> \<le> (2 :: rat) powi (- 7)" by (rule power_int_increasing) simp_all
    also have "\<dots> < 1 / 100" by (simp add: power_int_minus)
    finally show ?thesis .
  qed
  have err: "\<bar>r - q\<bar> \<le> ulp / 2"
  proof -
    have "r - q = (of_int (round_half_even (q / ulp)) - q / ulp) * ulp"
      using ulp_pos by (simp add: r_def algebra_simps)
    then have "\<bar>r - q\<bar> = \<bar>of_int (round_half_even (q / ulp)) - q / ulp\<bar> * ulp"
      using ulp_pos by (simp add: abs_mult)
    also have "\<dots> \<le> (1 / 2) * ulp"
      using round_half_even_error [of "q / ulp"] ulp_pos by (simp add: mult_right_mono)
    finally show ?thesis by simp
  qed
  have near: "\<bar>r * 100 - of_int v\<bar> < 1 / 2"
  proof -
    have "r * 100 - of_int v = (r - q) * 100" by (simp add: q_def algebra_simps)
    then have "\<bar>r * 100 - of_int v\<bar> = \<bar>(r - q) * 100\<bar>" by (simp only:)
    also have "\<dots> = \<bar>r - q\<bar> * \<bar>100\<bar>" by (rule abs_mult)
    also have "\<dots> = \<bar>r - q\<bar> * 100" by simp
    finally have eq: "\<bar>r * 100 - of_int v\<bar> = \<bar>r - q\<bar> * 100" .
    from err ulp_small have "\<bar>r - q\<bar> < 1 / 200" by simp
    then have "\<bar>r - q\<bar> * 100 < 1 / 2" by simp
    with eq show ?thesis by (simp only:)
  qed
  then have round: "round_half_even (r * 100) = v" by (rule round_half_even_near)
  have r_bound: "\<bar>r\<bar> < 2 ^ 1024"
  proof -
    have "\<bar>r\<bar> \<le> \<bar>q\<bar> + \<bar>r - q\<bar>" by linarith
    also have "\<dots> < 2 ^ 52 / 100 + 1" using q_bound err ulp_small by linarith
    also have "\<dots> \<le> 2 ^ 52" by simp
    also have "\<dots> \<le> (2 :: rat) ^ 1024" by (rule power_increasing) simp_all
    finally show ?thesis .
  qed
  have t: "int_truediv v 100 = Inr r"
    using False r_bound
    by (simp add: int_truediv_def Let_def r_def ulp_def e_def q_def)
  have "\<bar>v\<bar> < 10 ^ 28" using v by simp
  then show ?thesis
    by (simp add: funded_percentage_validator_def t decimal_round2_def round)
qed

text \<open>
  C7, as the code has it. For every raw integer value below \<open>2\<^sup>5\<^sup>2\<close> in magnitude the
  validator returns the value divided by 100, a number of two decimal places: the float
  division and the rounding lose nothing. The result lies in [0, 1] exactly when the raw
  value lies in [0, 100]. Raw 50 gives 0.50 and raw 33 gives 0.33; raw 5000 gives 50.00
  and raw 3333 gives 33.33.
\<close>

theorem funded_percentage_is_hundredth:
  "(\<bar>v\<bar> < 2 ^ 52 \<longrightarrow>
      funded_percentage_validator v = Inr (of_int v / 100)
      \<and> ((\<exists>p. funded_percentage_validator v = Inr p \<and> 0 \<le> p \<and> p \<le> 1) \<longleftrightarrow> 0 \<le> v \<and> v \<le> 100))
   \<and> funded_percentage_validator 50 = Inr (1 / 2)
   \<and> funded_percentage_validator 33 = Inr (33 / 100)
   \<and> funded_percentage_validator 5000 = Inr 50
   \<and> funded_percentage_validator 3333 = Inr (3333 / 100)"
proof (intro conjI impI)
  assume v: "\<bar>v\<bar> < 2 ^ 52"
  then show e: "funded_percentage_validator v = Inr (of_int v / 100)"
    by (rule funded_percentage_exact)
  have r: "(0 \<le> (of_int v :: rat) / 100 \<and> (of_int v :: rat) / 100 \<le> 1) \<longleftrightarrow> 0 \<le> v \<and> v \<le> 100"
    by simp
  show "(\<exists>p. funded_percentage_validator v = Inr p \<and> 0 \<le> p \<and> p \<le> 1)
      \<longleftrightarrow> 0 \<le> v \<and> v \<le> 100"
  proof
    assume "\<exists>p. funded_percentage_validator v = Inr p \<and> 0 \<le> p \<and> p \<le> 1"
    then obtain p where p: "funded_percentage_validator v = Inr p" "0 \<le> p" "p \<le> 1"
      by blast
    from p(1) e have "p = of_int v / 100" by (simp only: sum.inject)
    with p(2,3) have "0 \<le> (of_int v :: rat) / 100 \<and> (of_int v :: rat) / 100 \<le> 1" by blast
    with r show "0 \<le> v \<and> v \<le> 100" by blast
  next
    assume "0 \<le> v \<and> v \<le> 100"
    with r have "0 \<le> (of_int v :: rat) / 100 \<and> (of_int v :: rat) / 100 \<le> 1" by blast
    with e show "\<exists>p. funded_percentage_validator v = Inr p \<and> 0 \<le> p \<and> p \<le> 1"
      by blast
  qed
next
  show "funded_percentage_validator 50 = Inr (1 / 2)"
    using funded_percentage_exact [of 50] by simp
  show "funded_percentage_validator 33 = Inr (33 / 100)"
    using funded_percentage_exact [of 33] by simp
  show "funded_percentage_validator 5000 = Inr 50"
    using funded_percentage_exact [of 5000] by simp
  show "funded_percentage_validator 3333 = Inr (3333 / 100)"
    using funded_percentage_exact [of 3333] by simp
qed

theorem funded_percentage_is_hundredth_witness:
  "\<bar>85 :: int\<bar> < 2 ^ 52
   \<and> funded_percentage_validator 85 = Inr (17 / 20)
   \<and> (\<exists>p. funded_percentage_validator 85 = Inr p \<and> 0 \<le> p \<and> p \<le> 1)
   \<and> (0 :: int) \<le> 85 \<and> (85 :: int) \<le> 100"
proof -
  have hyp: "\<bar>85 :: int\<bar> < 2 ^ 52" by simp
  note pass = funded_percentage_is_hundredth [of 85]
  from pass hyp have v: "funded_percentage_validator 85 = Inr (17 / 20)" by simp
  have "(0 :: rat) \<le> 17 / 20 \<and> (17 / 20 :: rat) \<le> 1" by simp
  with v have "\<exists>p. funded_percentage_validator 85 = Inr p \<and> 0 \<le> p \<and> p \<le> 1" by blast
  with v hyp show ?thesis by simp
qed

text \<open>
  The claim as stated fails at its own examples: raw 5000 gives 50, which is neither 0.50
  nor in [0, 1], and raw 3333 gives 33.33.
\<close>

theorem funded_percentage_counterexample:
  "funded_percentage_validator 5000 = Inr 50
   \<and> funded_percentage_validator 5000 \<noteq> Inr (1 / 2)
   \<and> \<not> (50 :: rat) \<le> 1
   \<and> funded_percentage_validator 3333 = Inr (3333 / 100)
   \<and> funded_percentage_validator 3333 \<noteq> Inr (33 / 100)"
  using funded_percentage_exact [of 5000] funded_percentage_exact [of 3333] by simp

end
